theory Spec2Isabelle
  imports Complex_Main
begin

section \<open>Min-makespan scheduling: the schedule state\<close>

text \<open>
  The module \<^verbatim>\<open>fairpy/items/israels_MinMakespan_algorithm.py\<close> schedules jobs on
  unrelated machines. Costs and loads are rationals and their sums are exact; the
  arithmetic of the approximation driver on its two bounds rounds every result with a
  rounding function that is a parameter, so that exact arithmetic and Python's floats are
  both instances. The exceptions the code raises are values of \<open>exn\<close>, and an operation that
  mutates the schedule returns its outcome together with the schedule as the exception or
  the return leaves it. Inside the loops of the module every index comes from the ranges of
  the cost matrix; only the arguments of \<^verbatim>\<open>scedual\<close> can lie outside the arrays.
\<close>

datatype exn =
    KeyError string | IndexError | ValueError | TypeError | RuntimeError string | NetworkXError

datatype 'a outcome = Return 'a | Raise exn

text \<open>
  Class \<^verbatim>\<open>scedual\<close>: the cost matrix (rows are machines, columns are jobs) and the
  boolean assignment matrix.
\<close>

record scedual =
  costs :: "rat list list"
  assignments :: "bool list list"

text \<open>
  Modelled from the spec: \<^verbatim>\<open>ValuationMatrix\<close> is the library's matrix wrapper, a
  rectangular table with one row per agent (machine) and one column per object (job);
  \<^verbatim>\<open>agents()\<close> and \<^verbatim>\<open>objects()\<close> are the ranges of its row and column indices.
\<close>

definition agents :: "rat list list \<Rightarrow> nat list" where
  "agents v = [0..<length v]"

definition objects :: "rat list list \<Rightarrow> nat list" where
  "objects v = (case v of [] \<Rightarrow> [] | row # _ \<Rightarrow> [0..<length row])"

definition Jobs :: "scedual \<Rightarrow> nat" where
  "Jobs self = length (objects (costs self))"

definition Mechines :: "scedual \<Rightarrow> nat" where
  "Mechines self = length (agents (costs self))"

definition shape :: "scedual \<Rightarrow> nat \<times> nat" where
  "shape self = (Mechines self, Jobs self)"

text \<open>\<^verbatim>\<open>np.zeros(shape).astype(bool)\<close>\<close>

definition zeros :: "nat \<times> nat \<Rightarrow> bool list list" where
  "zeros sh = replicate (fst sh) (replicate (snd sh) False)"

definition build :: "rat list list \<Rightarrow> scedual \<Rightarrow> scedual" where
  "build cost_matrix self =
     (let self' = self\<lparr>costs := cost_matrix\<rparr>
      in self'\<lparr>assignments := zeros (shape self')\<rparr>)"

definition clear :: "scedual \<Rightarrow> scedual" where
  "clear self = self\<lparr>assignments := zeros (shape self)\<rparr>"

text \<open>
  \<^verbatim>\<open>scedual(mechine, job)\<close>: the duplicate check comes first, then the write. An index
  outside the assignment array is numpy's IndexError, raised by the read of the check.
\<close>

definition scedual :: "nat \<Rightarrow> nat \<Rightarrow> scedual \<Rightarrow> unit outcome \<times> scedual" where
  "scedual mechine job self =
     (if \<not> (mechine < length (assignments self)
             \<and> job < length (assignments self ! mechine))
      then (Raise IndexError, self)
      else if assignments self ! mechine ! job
      then (Raise (KeyError ''assignment already scedualed''), self)
      else (Return (),
            self\<lparr>assignments :=
              (assignments self)[mechine := (assignments self ! mechine)[job := True]]\<rparr>))"

text \<open>\<^verbatim>\<open>loadOf(mechine)\<close>: the costs of the jobs assigned to the machine, summed in job order.\<close>

definition loadOf :: "scedual \<Rightarrow> nat \<Rightarrow> rat" where
  "loadOf self mechine =
     sum_list [costs self ! mechine ! job.
               job \<leftarrow> objects (costs self), assignments self ! mechine ! job]"

text \<open>Python's \<^verbatim>\<open>max\<close> of an iterable: ValueError when it is empty, else the first greatest.\<close>

fun py_max :: "rat list \<Rightarrow> rat outcome" where
  "py_max [] = Raise ValueError"
| "py_max (x # xs) = Return (fold (\<lambda>y best. if best < y then y else best) xs x)"

text \<open>\<^verbatim>\<open>scedual_makespan.extract_result\<close>\<close>

definition extract_result_makespan :: "scedual \<Rightarrow> rat outcome" where
  "extract_result_makespan self =
     py_max [sum_list [costs self ! mechine ! job.
                       job \<leftarrow> [0..<Jobs self], assignments self ! mechine ! job].
             mechine \<leftarrow> [0..<Mechines self]]"

text \<open>\<^verbatim>\<open>scedual_assignment.extract_result\<close>: the pairs of the product iterator that are set.\<close>

definition extract_result_assignment :: "scedual \<Rightarrow> (nat \<times> nat) set" where
  "extract_result_assignment self =
     set [(mechine, job). mechine \<leftarrow> agents (costs self), job \<leftarrow> objects (costs self),
          assignments self ! mechine ! job]"




section \<open>The greedy assigner\<close>

text \<open>
  Python's \<^verbatim>\<open>min(iterable, key = ...)\<close>: ValueError on an empty iterable, else the first
  element whose key is least (a later element replaces the best one only when its key is
  strictly smaller).
\<close>

fun py_min_key :: "(nat \<Rightarrow> rat) \<Rightarrow> nat list \<Rightarrow> nat outcome" where
  "py_min_key key [] = Raise ValueError"
| "py_min_key key (x # xs) =
     Return (fold (\<lambda>y best. if key y < key best then y else best) xs x)"

text \<open>The loop of \<^verbatim>\<open>greedy\<close> over the jobs that are left.\<close>

fun greedy_jobs :: "nat list \<Rightarrow> scedual \<Rightarrow> unit outcome \<times> scedual" where
  "greedy_jobs [] output = (Return (), output)"
| "greedy_jobs (job # jobs) output =
     (case py_min_key (\<lambda>mechine. costs output ! mechine ! job + loadOf output mechine)
             [0..<Mechines output] of
        Raise e \<Rightarrow> (Raise e, output)
      | Return mechine \<Rightarrow>
          (case scedual mechine job output of
             (Raise e, output') \<Rightarrow> (Raise e, output')
           | (Return _, output') \<Rightarrow> greedy_jobs jobs output'))"

definition greedy :: "scedual \<Rightarrow> unit outcome \<times> scedual" where
  "greedy output = greedy_jobs [0..<Jobs output] output"


section \<open>The linear program of the feasibility oracle\<close>

text \<open>
  The program handed to the solver is data: the constraints in the order the code appends
  them. A variable is an entry \<open>(mechine, job)\<close> of \<^verbatim>\<open>variables\<close>; \<^verbatim>\<open>actives\<close> is the second,
  boolean, variable matrix of the same shape. An expression is a linear combination of
  entries of \<^verbatim>\<open>variables\<close> or the maximum of expressions.
\<close>

type_synonym var = "nat \<times> nat"

datatype expr = Lin "(rat \<times> var) list" | Maximum "expr list"

datatype constraint =
    VariablesGe0
  | ActivesGeVariables
  | SumActivesLe nat
  | Eq expr rat
  | Le expr rat

record problem =
  variables_shape :: "nat \<times> nat"
  constraints :: "constraint list"
  minimize :: expr

text \<open>\<^verbatim>\<open>cp.sum\<close> of a selection of entries of \<^verbatim>\<open>variables\<close>: every coefficient is one.\<close>

definition cp_sum :: "var list \<Rightarrow> expr" where
  "cp_sum sel = Lin (map (\<lambda>v. (1, v)) sel)"

text \<open>
  The loop over the jobs: the mask selects the machines whose cost for the job is within the
  bound; a job with an all-false mask makes \<^verbatim>\<open>LinearProgram\<close> return False at once (\<open>None\<close>).
\<close>

fun job_constraints :: "scedual \<Rightarrow> rat \<Rightarrow> nat list \<Rightarrow> constraint list option" where
  "job_constraints output apprx_bound [] = Some []"
| "job_constraints output apprx_bound (job # jobs) =
     (let mask = [mechine \<leftarrow> [0..<Mechines output]. costs output ! mechine ! job \<le> apprx_bound]
      in if mask \<noteq> []
         then map_option ((#) (Eq (cp_sum (map (\<lambda>mechine. (mechine, job)) mask)) 1))
                (job_constraints output apprx_bound jobs)
         else None)"

text \<open>The loop over the machines: a machine with an all-false mask gets no constraint.\<close>

fun mechine_constraints :: "scedual \<Rightarrow> rat \<Rightarrow> nat list \<Rightarrow> constraint list" where
  "mechine_constraints output apprx_bound [] = []"
| "mechine_constraints output apprx_bound (mechine # mechines) =
     (let mask = [job \<leftarrow> [0..<Jobs output]. costs output ! mechine ! job \<le> apprx_bound]
      in (if mask \<noteq> []
          then [Le (cp_sum (map (\<lambda>job. (mechine, job)) mask)) apprx_bound]
          else [])
         @ mechine_constraints output apprx_bound mechines)"

definition makespan_expr :: "scedual \<Rightarrow> expr" where
  "makespan_expr output =
     Maximum [cp_sum (map (\<lambda>job. (mechine, job)) [0..<Jobs output]).
              mechine \<leftarrow> [0..<Mechines output]]"

text \<open>
  \<^verbatim>\<open>LinearProgram\<close> up to \<^verbatim>\<open>cp.Problem(objective, constraints)\<close>. The solver library's
  \<^verbatim>\<open>maximum\<close> atom takes at least two arguments, so with fewer than two machines the
  construction of the objective raises TypeError.
\<close>

definition build_problem :: "scedual \<Rightarrow> rat \<Rightarrow> problem option outcome" where
  "build_problem output apprx_bound =
     (case job_constraints output apprx_bound [0..<Jobs output] of
        None \<Rightarrow> Return None
      | Some per_job \<Rightarrow>
          if Mechines output < 2 then Raise TypeError
          else Return (Some \<lparr>variables_shape = shape output,
                 constraints =
                   [VariablesGe0, ActivesGeVariables, SumActivesLe (Jobs output + Mechines output)]
                   @ per_job
                   @ mechine_constraints output apprx_bound [0..<Mechines output]
                   @ [Le (makespan_expr output) apprx_bound],
                 minimize = makespan_expr output\<rparr>))"

text \<open>
  What a constraint says of a value \<open>x\<close> of \<^verbatim>\<open>variables\<close> and a value \<open>a\<close> of \<^verbatim>\<open>actives\<close>.
\<close>

fun eval_expr :: "(nat \<Rightarrow> nat \<Rightarrow> rat) \<Rightarrow> expr \<Rightarrow> rat" where
  "eval_expr x (Lin terms) = sum_list (map (\<lambda>(c, (m, j)). c * x m j) terms)"
| "eval_expr x (Maximum es) =
     (case map (eval_expr x) es of [] \<Rightarrow> 0 | v # vs \<Rightarrow> fold max vs v)"

fun satisfies :: "nat \<times> nat \<Rightarrow> (nat \<Rightarrow> nat \<Rightarrow> rat) \<Rightarrow> (nat \<Rightarrow> nat \<Rightarrow> bool) \<Rightarrow> constraint \<Rightarrow> bool" where
  "satisfies sh x a VariablesGe0 =
     list_all (\<lambda>(m, j). 0 \<le> x m j) (List.product [0..<fst sh] [0..<snd sh])"
| "satisfies sh x a ActivesGeVariables =
     list_all (\<lambda>(m, j). x m j \<le> (if a m j then 1 else 0)) (List.product [0..<fst sh] [0..<snd sh])"
| "satisfies sh x a (SumActivesLe n) =
     (length [v \<leftarrow> List.product [0..<fst sh] [0..<snd sh]. a (fst v) (snd v)] \<le> n)"
| "satisfies sh x a (Eq e c) = (eval_expr x e = c)"
| "satisfies sh x a (Le e c) = (eval_expr x e \<le> c)"

definition feasible_point :: "problem \<Rightarrow> (nat \<Rightarrow> nat \<Rightarrow> rat) \<Rightarrow> (nat \<Rightarrow> nat \<Rightarrow> bool) \<Rightarrow> bool" where
  "feasible_point prob x a = list_all (satisfies (variables_shape prob) x a) (constraints prob)"

text \<open>
  The load constraint as the specification words it, for comparison: for machine \<open>m\<close> the
  sum over its eligible jobs of \<open>cost(m, j) * x[m][j]\<close> is at most the bound.
\<close>

definition spec_load_constraint :: "scedual \<Rightarrow> rat \<Rightarrow> nat \<Rightarrow> constraint" where
  "spec_load_constraint output apprx_bound mechine =
     Le (Lin [(costs output ! mechine ! job, (mechine, job)).
              job \<leftarrow> [0..<Jobs output], costs output ! mechine ! job \<le> apprx_bound])
        apprx_bound"

section \<open>The rounding graph and the external engines\<close>

record graph =
  nodes :: "string list"
  edges :: "(string \<times> string) list"

definition digit_chars :: string where
  "digit_chars = ''0123456789''"

text \<open>Python's \<^verbatim>\<open>str\<close> of a natural number.\<close>

fun str :: "nat \<Rightarrow> string" where
  "str n = (if n < 10 then [digit_chars ! n] else str (n div 10) @ [digit_chars ! (n mod 10)])"

declare str.simps [simp del]

definition int_to_node :: "nat \<Rightarrow> bool \<Rightarrow> string" where
  "int_to_node ind job = (if job then ''J'' @ str ind else ''M'' @ str ind)"

text \<open>\<^verbatim>\<open>int(name[1])\<close>: the digit that is the second character of the name.\<close>

definition node_to_int :: "string \<Rightarrow> nat outcome" where
  "node_to_int name =
     (if length name < 2 then Raise IndexError
      else case List.find (\<lambda>d. digit_chars ! d = name ! 1) [0..<10] of
             None \<Rightarrow> Raise ValueError
           | Some d \<Rightarrow> Return d)"

text \<open>\<^verbatim>\<open>G.remove_edge(u, v)\<close> of an undirected graph; the library raises when the edge is absent.\<close>

definition remove_edge :: "string \<Rightarrow> string \<Rightarrow> graph \<Rightarrow> graph outcome" where
  "remove_edge u v G =
     (if (u, v) \<in> set (edges G) \<or> (v, u) \<in> set (edges G)
      then Return (G\<lparr>edges := [e \<leftarrow> edges G. e \<noteq> (u, v) \<and> e \<noteq> (v, u)]\<rparr>)
      else Raise NetworkXError)"

definition subgraph :: "graph \<Rightarrow> string list \<Rightarrow> graph" where
  "subgraph G component =
     \<lparr>nodes = [n \<leftarrow> nodes G. n \<in> set component],
      edges = [e \<leftarrow> edges G. fst e \<in> set component \<and> snd e \<in> set component]\<rparr>"

text \<open>
  The engines the module calls and does not implement are parameters: the solver
  (\<open>Some\<close> of the value of \<^verbatim>\<open>variables\<close> when the status is \<^verbatim>\<open>'optimal'\<close>, else \<open>None\<close>), the
  graph library's bipartiteness test, its connected components, and its maximum matching,
  given as the \<open>(mechine, job)\<close> pairs that the loop over the matcher's result unpacks.
  \<open>rnd\<close> is the rounding of a floating-point result in the driver's arithmetic on its
  bounds: the identity is exact arithmetic, \<open>binary64\<close> below is Python's float.
\<close>

record engines =
  solve :: "problem \<Rightarrow> (nat \<Rightarrow> nat \<Rightarrow> rat) option"
  is_bipartite :: "graph \<Rightarrow> bool"
  connected_components :: "graph \<Rightarrow> string list list"
  maximum_matching :: "graph \<Rightarrow> (string \<times> string) list"
  rnd :: "rat \<Rightarrow> rat"

section \<open>The rounder\<close>

text \<open>The iterator of the class: the product of machine and job indices, machines first.\<close>

definition pairs :: "scedual \<Rightarrow> (nat \<times> nat) list" where
  "pairs self = List.product (agents (costs self)) (objects (costs self))"

definition fractional_graph :: "scedual \<Rightarrow> (nat \<Rightarrow> nat \<Rightarrow> rat) \<Rightarrow> graph" where
  "fractional_graph output fractional_sol =
     \<lparr>nodes = [''M'' @ str i. i \<leftarrow> [0..<Mechines output]]
              @ [''J'' @ str i. i \<leftarrow> [0..<Jobs output]],
      edges = [(''M'' @ str mechine, ''J'' @ str job).
               (mechine, job) \<leftarrow> pairs output, 0 < fractional_sol mechine job]\<rparr>"

text \<open>The first loop of \<^verbatim>\<open>Round\<close>: entries equal to 1 are assigned and their edge removed.\<close>

fun adopt :: "(nat \<Rightarrow> nat \<Rightarrow> rat) \<Rightarrow> (nat \<times> nat) list \<Rightarrow> scedual \<Rightarrow> graph
    \<Rightarrow> graph outcome \<times> scedual" where
  "adopt fractional_sol [] output G = (Return G, output)"
| "adopt fractional_sol ((mechine, job) # rest) output G =
     (if fractional_sol mechine job = 1
      then (case scedual mechine job output of
              (Raise e, output') \<Rightarrow> (Raise e, output')
            | (Return _, output') \<Rightarrow>
                (case remove_edge (int_to_node mechine False) (int_to_node job True) G of
                   Raise e \<Rightarrow> (Raise e, output')
                 | Return G' \<Rightarrow> adopt fractional_sol rest output' G'))
      else adopt fractional_sol rest output G)"

text \<open>The inner loop of the second part: the pairs of one component's matching.\<close>

fun assign_matching :: "(string \<times> string) list \<Rightarrow> scedual \<Rightarrow> unit outcome \<times> scedual" where
  "assign_matching [] output = (Return (), output)"
| "assign_matching ((mechine, job) # rest) output =
     (case node_to_int mechine of
        Raise e \<Rightarrow> (Raise e, output)
      | Return m \<Rightarrow>
          (case node_to_int job of
             Raise e \<Rightarrow> (Raise e, output)
           | Return j \<Rightarrow>
               (case scedual m j output of
                  (Raise e, output') \<Rightarrow> (Raise e, output')
                | (Return _, output') \<Rightarrow> assign_matching rest output')))"

fun assign_components :: "engines \<Rightarrow> graph \<Rightarrow> string list list \<Rightarrow> scedual
    \<Rightarrow> unit outcome \<times> scedual" where
  "assign_components env G [] output = (Return (), output)"
| "assign_components env G (component # rest) output =
     (if length component < 2 then assign_components env G rest output
      else case assign_matching (maximum_matching env (subgraph G component)) output of
             (Raise e, output') \<Rightarrow> (Raise e, output')
           | (Return _, output') \<Rightarrow> assign_components env G rest output')"

definition Round :: "engines \<Rightarrow> scedual \<Rightarrow> (nat \<Rightarrow> nat \<Rightarrow> rat) \<Rightarrow> unit outcome \<times> scedual" where
  "Round env output fractional_sol =
     (case adopt fractional_sol (pairs output) output (fractional_graph output fractional_sol) of
        (Raise e, output') \<Rightarrow> (Raise e, output')
      | (Return G, output') \<Rightarrow>
          if \<not> is_bipartite env G
          then (Raise (RuntimeError ''G[fractional solution] should be bipartite''), output')
          else assign_components env G (connected_components env G) output')"

section \<open>The feasibility oracle and the approximation driver\<close>

definition LinearProgram :: "engines \<Rightarrow> scedual \<Rightarrow> rat \<Rightarrow> bool outcome \<times> scedual" where
  "LinearProgram env output apprx_bound =
     (case build_problem output apprx_bound of
        Raise e \<Rightarrow> (Raise e, output)
      | Return None \<Rightarrow> (Return False, output)
      | Return (Some prob) \<Rightarrow>
          (case solve env prob of
             None \<Rightarrow> (Return False, output)
           | Some fractional_sol \<Rightarrow>
               (case Round env (clear output) fractional_sol of
                  (Raise e, output') \<Rightarrow> (Raise e, output')
                | (Return _, output') \<Rightarrow> (Return True, output'))))"

text \<open>
  One pass through the body of the \<^verbatim>\<open>while\<close> loop of \<^verbatim>\<open>apprx\<close>: the flag the oracle
  returned and the new bounds. Every arithmetic result, and the literal 0.0001, is rounded
  by \<open>rnd\<close>.
\<close>

definition apprx_iteration :: "engines \<Rightarrow> rat \<Rightarrow> rat \<Rightarrow> scedual
    \<Rightarrow> (bool \<times> rat \<times> rat) outcome \<times> scedual" where
  "apprx_iteration env lower upper output =
     (let middle = rnd env (rnd env (upper + lower) / 2)
      in case LinearProgram env output upper of
           (Raise e, output') \<Rightarrow> (Raise e, output')
         | (Return feasable, output') \<Rightarrow>
             (Return (feasable,
                      if \<not> feasable then (rnd env (middle + rnd env (1 / 10000)), upper)
                      else (lower, rnd env (middle - rnd env (1 / 10000)))),
              output'))"

text \<open>
  The loop. \<open>None\<close> is a loop that never ends. Besides the outcome and the schedule, the
  result lists the oracle's invocations: the bound passed and the flag returned.
\<close>

partial_function (option) apprx_loop :: "engines \<Rightarrow> rat \<Rightarrow> rat \<Rightarrow> scedual \<Rightarrow> (rat \<times> bool) list
    \<Rightarrow> (unit outcome \<times> scedual \<times> (rat \<times> bool) list) option" where
  "apprx_loop env lower upper output calls =
     (if lower \<le> upper
      then (case apprx_iteration env lower upper output of
              (Raise e, output') \<Rightarrow> Some (Raise e, output', calls)
            | (Return (feasable, lower', upper'), output') \<Rightarrow>
                apprx_loop env lower' upper' output' (calls @ [(upper, feasable)]))
      else Some (Return (), output, calls))"

text \<open>
  \<^verbatim>\<open>apprx\<close>: the greedy solution is computed on an object of its own, whose makespan seeds
  the bounds; the object is deleted before the loop.
\<close>

definition apprx :: "engines \<Rightarrow> scedual \<Rightarrow> (unit outcome \<times> scedual \<times> (rat \<times> bool) list) option" where
  "apprx env output =
     (case greedy (build (costs output) \<lparr>costs = [], assignments = []\<rparr>) of
        (Raise e, greedy_sol) \<Rightarrow> Some (Raise e, output, [])
      | (Return _, greedy_sol) \<Rightarrow>
          (case extract_result_makespan greedy_sol of
             Raise e \<Rightarrow> Some (Raise e, output, [])
           | Return upper \<Rightarrow>
               apprx_loop env (rnd env (upper / of_nat (Mechines output))) upper output []))"

text \<open>
  \<^verbatim>\<open>MinMakespan(algo, input, output)\<close>: build, run the algorithm, extract the result. The
  algorithm may not return (\<open>None\<close>).
\<close>

definition MinMakespan ::
  "(scedual \<Rightarrow> (unit outcome \<times> scedual) option) \<Rightarrow> (scedual \<Rightarrow> 'r outcome) \<Rightarrow> rat list list
     \<Rightarrow> scedual \<Rightarrow> ('r outcome \<times> scedual) option" where
  "MinMakespan algo extract_result input output =
     (case algo (build input output) of
        None \<Rightarrow> None
      | Some (Raise e, output') \<Rightarrow> Some (Raise e, output')
      | Some (Return _, output') \<Rightarrow> Some (extract_result output', output'))"

definition greedy_algo :: "scedual \<Rightarrow> (unit outcome \<times> scedual) option" where
  "greedy_algo output = Some (greedy output)"

definition apprx_algo :: "engines \<Rightarrow> scedual \<Rightarrow> (unit outcome \<times> scedual) option" where
  "apprx_algo env output = map_option (\<lambda>(r, output', calls). (r, output')) (apprx env output)"

text \<open>
  The iteration as the specification words it, for comparison: clear the schedule, invoke
  the oracle at the midpoint, then move the bound.
\<close>

definition spec_iteration :: "engines \<Rightarrow> rat \<Rightarrow> rat \<Rightarrow> scedual
    \<Rightarrow> (bool \<times> rat \<times> rat) outcome \<times> scedual" where
  "spec_iteration env lower upper output =
     (let mid = rnd env (rnd env (lower + upper) / 2)
      in case LinearProgram env (clear output) mid of
           (Raise e, output') \<Rightarrow> (Raise e, output')
         | (Return feasable, output') \<Rightarrow>
             (Return (feasable,
                      if \<not> feasable then (rnd env (mid + rnd env (1 / 10000)), upper)
                      else (lower, rnd env (mid - rnd env (1 / 10000)))),
              output'))"

section \<open>Floating-point rounding\<close>

text \<open>
  Python's float is IEEE binary64. \<open>binary64 x\<close> is the float nearest to the rational \<open>x\<close>,
  ties to the even significand: with \<open>2\<^sup>e \<le> |x| < 2\<^sup>e\<^sup>+\<^sup>1\<close> the floats near \<open>x\<close> are the
  multiples of \<open>2\<^sup>e\<^sup>-\<^sup>5\<^sup>2\<close>. Overflow and subnormal numbers are not modelled: the
  magnitudes used below lie between \<open>2\<^sup>-\<^sup>1\<^sup>4\<close> and \<open>2\<^sup>4\<^sup>5\<close>.
\<close>

function ilog2 :: "int \<Rightarrow> int" where
  "ilog2 n = (if n < 2 then 0 else 1 + ilog2 (n div 2))"
  by pat_completeness auto
termination
  by (relation "measure nat") auto

declare ilog2.simps [simp del]

text \<open>The exponent \<open>e\<close> of a positive rational: \<open>2\<^sup>e \<le> x < 2\<^sup>e\<^sup>+\<^sup>1\<close>.\<close>

definition exponent :: "rat \<Rightarrow> int" where
  "exponent x = (if 1 \<le> x then ilog2 \<lfloor>x\<rfloor> else - (1 + ilog2 (\<lceil>1 / x\<rceil> - 1)))"

definition scale2 :: "int \<Rightarrow> rat" where
  "scale2 e = (if 0 \<le> e then 2 ^ nat e else 1 / 2 ^ nat (- e))"

definition round_half_even :: "rat \<Rightarrow> int" where
  "round_half_even q =
     (let f = \<lfloor>q\<rfloor>; r = q - of_int f
      in if r < 1 / 2 then f else if 1 / 2 < r then f + 1 else if even f then f else f + 1)"

definition binary64 :: "rat \<Rightarrow> rat" where
  "binary64 x =
     (if x = 0 then 0
      else let ulp = scale2 (exponent \<bar>x\<bar> - 52)
           in sgn x * of_int (round_half_even (\<bar>x\<bar> / ulp)) * ulp)"

section \<open>Example schedules and engines\<close>

text \<open>A new object of the class, before \<^verbatim>\<open>build\<close>.\<close>

definition fresh :: scedual where
  "fresh = \<lparr>costs = [], assignments = []\<rparr>"

text \<open>
  A boolean matrix read as a value of \<^verbatim>\<open>variables\<close> (1 where set, 0 elsewhere) and of
  \<^verbatim>\<open>actives\<close>.
\<close>

definition indicator :: "bool list list \<Rightarrow> nat \<Rightarrow> nat \<Rightarrow> rat" where
  "indicator A m j = (if m < length A \<and> j < length (A ! m) \<and> A ! m ! j then 1 else 0)"

definition active :: "bool list list \<Rightarrow> nat \<Rightarrow> nat \<Rightarrow> bool" where
  "active A m j \<longleftrightarrow> m < length A \<and> j < length (A ! m) \<and> A ! m ! j"

text \<open>
  Engines for a run whose solutions are integral. The solver answers with the candidate
  when the candidate satisfies the program it is given and reports no optimum otherwise.
  After the first loop of \<^verbatim>\<open>Round\<close> the graph of an integral solution has no edge: it is
  bipartite, its components are its nodes, and no matching is asked for. Arithmetic is exact.
\<close>

definition integral_engines :: "bool list list \<Rightarrow> engines" where
  "integral_engines A =
     \<lparr>solve = (\<lambda>prob. if feasible_point prob (indicator A) (active A)
                 then Some (indicator A) else None),
      is_bipartite = (\<lambda>G. True),
      connected_components = (\<lambda>G. map (\<lambda>n. [n]) (nodes G)),
      maximum_matching = (\<lambda>G. []),
      rnd = (\<lambda>q. q)\<rparr>"

text \<open>Engines whose bipartiteness test rejects the graph it is given.\<close>

definition rejecting_engines :: engines where
  "rejecting_engines =
     \<lparr>solve = (\<lambda>prob. Some (\<lambda>m j. 1 / 2)),
      is_bipartite = (\<lambda>G. False),
      connected_components = (\<lambda>G. [nodes G]),
      maximum_matching = (\<lambda>G. [(''M0'', ''J0'')]),
      rnd = (\<lambda>q. q)\<rparr>"

text \<open>
  Two jobs that cost 3 on each of two machines, cleared, and the program that
  \<^verbatim>\<open>LinearProgram\<close> builds for it and the greedy makespan 3.
\<close>

definition unit_row_schedule :: scedual where
  "unit_row_schedule = \<lparr>costs = [[3, 3], [3, 3]], assignments = [[False, False], [False, False]]\<rparr>"

definition unit_row_problem :: problem where
  "unit_row_problem =
     \<lparr>variables_shape = (2, 2),
      constraints = [VariablesGe0, ActivesGeVariables, SumActivesLe 4,
        Eq (Lin [(1, 0, 0), (1, 1, 0)]) 1, Eq (Lin [(1, 0, 1), (1, 1, 1)]) 1,
        Le (Lin [(1, 0, 0), (1, 0, 1)]) 3, Le (Lin [(1, 1, 0), (1, 1, 1)]) 3,
        Le (Maximum [Lin [(1, 0, 0), (1, 0, 1)], Lin [(1, 1, 0), (1, 1, 1)]]) 3],
      minimize = Maximum [Lin [(1, 0, 0), (1, 0, 1)], Lin [(1, 1, 0), (1, 1, 1)]]\<rparr>"

text \<open>Three jobs of cost one half on each of two machines, and the greedy assignment.\<close>

definition halves :: "rat list list" where
  "halves = [[1 / 2, 1 / 2, 1 / 2], [1 / 2, 1 / 2, 1 / 2]]"

definition halves_greedy :: "bool list list" where
  "halves_greedy = [[True, False, True], [False, True, False]]"

text \<open>
  Two jobs that cost 1 on the first machine and 5 on the second, and a vertex of the
  program built for the bound 2 that also sets an entry of the second machine.
\<close>

definition skew :: "rat list list" where
  "skew = [[1, 1], [5, 5]]"

definition skew_vertex :: "bool list list" where
  "skew_vertex = [[True, True], [True, False]]"


text \<open>
  Two jobs that cost \<open>10\<^sup>1\<^sup>3\<close> on their own machine and three times as much on the other,
  the schedule that gives each job to its own machine, and the engines of such a run in
  Python's floats.
\<close>

definition wide :: "rat list list" where
  "wide = [[10 ^ 13, 3 * 10 ^ 13], [3 * 10 ^ 13, 10 ^ 13]]"

definition wide_assigned :: scedual where
  "wide_assigned = \<lparr>costs = wide, assignments = [[True, False], [False, True]]\<rparr>"

definition double_engines :: engines where
  "double_engines = (integral_engines [[True, False], [False, True]])\<lparr>rnd := binary64\<rparr>"

section \<open>Properties of the schedule state\<close>

lemma fold_py_max: "fold (\<lambda>y best. if best < y then y else best) xs (x::rat) = Max (set (x # xs))"
proof -
  have "(\<lambda>y best. if best < y then y else best) = (max :: rat \<Rightarrow> rat \<Rightarrow> rat)"
    by (auto simp: fun_eq_iff max_def)
  then show ?thesis
    by (simp only: Max.set_eq_fold)
qed

lemma loadOf_range: "loadOf self mechine =
    sum_list [costs self ! mechine ! job. job \<leftarrow> [0..<Jobs self], assignments self ! mechine ! job]"
  by (simp add: loadOf_def Jobs_def objects_def split: list.splits)

lemma sum_list_concat_none:
  "(\<And>x. x \<in> set xs \<Longrightarrow> \<not> P x) \<Longrightarrow> sum_list (concat (map (\<lambda>x. if P x then [f x] else []) xs)) = (0::rat)"
  by (induction xs) simp_all

text \<open>
  C6. For valid indices, assigning a cell that is already set raises the duplicate
  assignment error (the code's KeyError); assigning a cell that is not set returns and the
  cell is set afterwards.
\<close>

theorem scedual_duplicate_or_set:
  assumes "mechine < length (assignments self)"
    and "job < length (assignments self ! mechine)"
  shows "(assignments self ! mechine ! job \<longrightarrow>
            fst (scedual mechine job self) = Raise (KeyError ''assignment already scedualed''))
       \<and> (\<not> assignments self ! mechine ! job \<longrightarrow>
            fst (scedual mechine job self) = Return ()
            \<and> assignments (snd (scedual mechine job self)) ! mechine ! job)"
  using assms by (simp add: scedual_def)

theorem scedual_duplicate_or_set_witness:
  "fst (scedual 0 1 \<lparr>costs = [[1, 1]], assignments = [[False, True]]\<rparr>)
     = Raise (KeyError ''assignment already scedualed'')
   \<and> fst (scedual 0 0 \<lparr>costs = [[1, 1]], assignments = [[False, True]]\<rparr>) = Return ()
   \<and> assignments (snd (scedual 0 0 \<lparr>costs = [[1, 1]], assignments = [[False, True]]\<rparr>)) ! 0 ! 0"
  using scedual_duplicate_or_set [of 0 "\<lparr>costs = [[1, 1]], assignments = [[False, True]]\<rparr>" 1]
    scedual_duplicate_or_set [of 0 "\<lparr>costs = [[1, 1]], assignments = [[False, True]]\<rparr>" 0]
  by simp

text \<open>
  C10. A failed assignment leaves the schedule as it was: the duplicate check precedes
  the write, so when the cell is already set the whole state is returned unchanged.
\<close>

theorem scedual_failure_atomic:
  assumes "mechine < length (assignments self)"
    and "job < length (assignments self ! mechine)"
    and "assignments self ! mechine ! job"
  shows "scedual mechine job self = (Raise (KeyError ''assignment already scedualed''), self)"
  using assms by (simp add: scedual_def)

theorem scedual_failure_atomic_witness:
  "scedual 1 0 \<lparr>costs = [[1, 1], [1, 1]], assignments = [[False, True], [True, False]]\<rparr>
     = (Raise (KeyError ''assignment already scedualed''),
        \<lparr>costs = [[1, 1], [1, 1]], assignments = [[False, True], [True, False]]\<rparr>)"
  using scedual_failure_atomic
    [of 1 "\<lparr>costs = [[1, 1], [1, 1]], assignments = [[False, True], [True, False]]\<rparr>" 0]
  by simp

lemma extract_result_makespan_Max:
  assumes "1 \<le> Mechines self"
  shows "extract_result_makespan self = Return (Max (loadOf self ` {0..<Mechines self}))"
proof -
  let ?loads = "map (loadOf self) [0..<Mechines self]"
  have eq: "extract_result_makespan self = py_max ?loads"
    unfolding extract_result_makespan_def
    by (simp add: loadOf_range [abs_def])
  from assms obtain l ls where l: "?loads = l # ls"
    by (cases ?loads) auto
  have "py_max ?loads = Return (Max (set ?loads))"
    unfolding l by (simp only: py_max.simps fold_py_max)
  then show ?thesis
    using eq by simp
qed

lemma extract_result_makespan_unassigned:
  assumes "1 \<le> Mechines self"
    and none: "\<forall>mechine < Mechines self. \<forall>job < Jobs self. \<not> assignments self ! mechine ! job"
  shows "extract_result_makespan self = Return 0"
proof -
  have "loadOf self mechine = 0" if "mechine < Mechines self" for mechine
    unfolding loadOf_range using none that
    by (intro sum_list_concat_none) simp
  then have "loadOf self ` {0..<Mechines self} = {0}"
    using assms(1) by (auto simp: image_def intro!: exI [of _ 0])
  with extract_result_makespan_Max [OF assms(1)] show ?thesis by simp
qed

text \<open>
  C8. With at least one machine, the makespan extraction returns the greatest machine
  load, and 0 when no cell is assigned.
\<close>

theorem extract_result_makespan_is_max_load:
  assumes "1 \<le> Mechines self"
  shows "extract_result_makespan self = Return (Max (loadOf self ` {0..<Mechines self}))
       \<and> ((\<forall>mechine < Mechines self. \<forall>job < Jobs self. \<not> assignments self ! mechine ! job)
            \<longrightarrow> extract_result_makespan self = Return 0)"
  using extract_result_makespan_Max [OF assms] extract_result_makespan_unassigned [OF assms]
  by blast

theorem extract_result_makespan_is_max_load_witness:
  "extract_result_makespan \<lparr>costs = [[1, 1], [1, 1]], assignments = [[True, True], [False, False]]\<rparr>
     = Return (Max (loadOf \<lparr>costs = [[1, 1], [1, 1]], assignments = [[True, True], [False, False]]\<rparr>
                     ` {0..<2}))
   \<and> extract_result_makespan \<lparr>costs = [[1, 1], [1, 1]], assignments = [[False, False], [False, False]]\<rparr>
     = Return 0"
proof -
  let ?a = "\<lparr>costs = [[1, 1], [1, 1]], assignments = [[True, True], [False, False]]\<rparr>"
  let ?b = "\<lparr>costs = [[1, 1], [1, 1]], assignments = [[False, False], [False, False]]\<rparr>"
  have ma: "1 \<le> Mechines ?a" and mb: "1 \<le> Mechines ?b"
    by (simp_all add: Mechines_def agents_def)
  have none: "\<forall>mechine < Mechines ?b. \<forall>job < Jobs ?b. \<not> assignments ?b ! mechine ! job"
    by (simp add: Mechines_def Jobs_def agents_def objects_def less_Suc_eq)
  have m2: "Mechines ?a = 2"
    by (simp add: Mechines_def agents_def)
  have a: "extract_result_makespan ?a = Return (Max (loadOf ?a ` {0..<Mechines ?a}))"
    using extract_result_makespan_is_max_load [OF ma] by (rule conjunct1)
  have b: "extract_result_makespan ?b = Return 0"
    using extract_result_makespan_is_max_load [OF mb] none by blast
  from a [unfolded m2] b show ?thesis by (rule conjI)
qed












lemma zeros_nth: "m < fst sh \<Longrightarrow> j < snd sh \<Longrightarrow> \<not> zeros sh ! m ! j"
  by (simp add: zeros_def)

lemma build_fields:
  "costs (build v s) = v" "assignments (build v s) = zeros (shape (build v s))"
  by (simp_all add: build_def Let_def shape_def Mechines_def Jobs_def)



section \<open>Evaluation on examples\<close>

lemma upt1: "[0..<1] = [0]"
  by simp

lemma upt2: "[0..<2] = [0, 1]"
  by (simp add: upt_conv_Cons numeral_2_eq_2)

lemma upt3: "[0..<3] = [0, 1, 2]"
  by (simp add: upt_conv_Cons numeral_3_eq_3)

lemma str_digit: "n < 10 \<Longrightarrow> str n = [digit_chars ! n]"
  by (simp add: str.simps)

lemmas eval_defs =
  build_problem_def Jobs_def Mechines_def agents_def objects_def shape_def cp_sum_def
  makespan_expr_def feasible_point_def LinearProgram_def Round_def clear_def zeros_def
  pairs_def fractional_graph_def scedual_def remove_edge_def int_to_node_def
  apprx_iteration_def spec_iteration_def build_def Let_def

lemmas eval_run = eval_defs upt2 upt1 upt3 str_digit digit_chars_def integral_engines_def
  indicator_def active_def apprx_def greedy_def extract_result_makespan_def loadOf_def
  MinMakespan_def apprx_algo_def greedy_algo_def

section \<open>The load constraint of the linear program\<close>

text \<open>
  C2. For the costs \<open>[[3, 3], [3, 3]]\<close> the greedy makespan is 3, the bound of the driver's
  first call of the oracle. The program the code builds for it has, for machine 0, the
  constraint \<open>x[0][0] + x[0][1] \<le> 3\<close> with unit coefficients, and not the load constraint
  \<open>3 * x[0][0] + 3 * x[0][1] \<le> 3\<close> of the specification: the point that puts both jobs on
  machine 0 satisfies every constraint of the program and violates the load constraint.
\<close>

theorem load_constraint_has_unit_coefficients:
  "build [[3, 3], [3, 3]] fresh = unit_row_schedule
   \<and> map_option fst (MinMakespan greedy_algo extract_result_makespan [[3, 3], [3, 3]] fresh)
       = Some (Return 3)
   \<and> build_problem unit_row_schedule 3 = Return (Some unit_row_problem)
   \<and> Le (Lin [(1, 0, 0), (1, 0, 1)]) 3 \<in> set (constraints unit_row_problem)
   \<and> spec_load_constraint unit_row_schedule 3 0 = Le (Lin [(3, 0, 0), (3, 0, 1)]) 3
   \<and> spec_load_constraint unit_row_schedule 3 0 \<notin> set (constraints unit_row_problem)
   \<and> feasible_point unit_row_problem (indicator [[True, True], [False, False]])
        (active [[True, True], [False, False]])
   \<and> \<not> satisfies (2, 2) (indicator [[True, True], [False, False]])
          (active [[True, True], [False, False]]) (spec_load_constraint unit_row_schedule 3 0)"
  by (simp add: eval_run unit_row_schedule_def unit_row_problem_def fresh_def
      spec_load_constraint_def)

section \<open>The rounder and the bipartiteness check\<close>

lemma scedual_cells:
  assumes "scedual m j s = (Return u, s')"
  shows "costs s' = costs s"
    and "length (assignments s') = length (assignments s)"
    and "\<And>m' j'. m' < length (assignments s) \<Longrightarrow>
           length (assignments s' ! m') = length (assignments s ! m')"
    and "\<And>m' j'. m' < length (assignments s) \<Longrightarrow> j' < length (assignments s ! m') \<Longrightarrow>
           assignments s' ! m' ! j' = ((m' = m \<and> j' = j) \<or> assignments s ! m' ! j')"
proof -
  from assms have m: "m < length (assignments s)" and j: "j < length (assignments s ! m)"
    and s': "s' = s\<lparr>assignments := (assignments s)[m := (assignments s ! m)[j := True]]\<rparr>"
    by (auto simp: scedual_def split: if_splits)
  show "costs s' = costs s" "length (assignments s') = length (assignments s)"
    by (simp_all add: s')
  show "length (assignments s' ! m') = length (assignments s ! m')"
    if "m' < length (assignments s)" for m'
    using that by (cases "m' = m") (simp_all add: s')
  show "assignments s' ! m' ! j' = ((m' = m \<and> j' = j) \<or> assignments s ! m' ! j')"
    if "m' < length (assignments s)" "j' < length (assignments s ! m')" for m' j'
    using that by (cases "m' = m"; cases "j' = j") (simp_all add: s')
qed

lemma adopt_cells:
  assumes "adopt x ps s G = (r, s')"
  shows "length (assignments s') = length (assignments s)
    \<and> (\<forall>m < length (assignments s). length (assignments s' ! m) = length (assignments s ! m))
    \<and> (\<forall>m < length (assignments s). \<forall>j < length (assignments s ! m).
          assignments s' ! m ! j \<longrightarrow> assignments s ! m ! j \<or> x m j = 1)"
  using assms
proof (induction ps arbitrary: s G)
  case Nil
  then show ?case by simp
next
  case (Cons p ps)
  obtain m j where p: "p = (m, j)" by (cases p)
  show ?case
  proof (cases "x m j = 1")
    case False
    with Cons.prems p have "adopt x ps s G = (r, s')" by simp
    then show ?thesis by (rule Cons.IH)
  next
    case True
    show ?thesis
    proof (cases "scedual m j s")
      case (Pair o1 s1)
      show ?thesis
      proof (cases o1)
        case (Raise e)
        with Pair True Cons.prems p have "s' = s1" by simp
        moreover have "s1 = s"
          using Pair Raise by (auto simp: scedual_def split: if_splits)
        ultimately show ?thesis by simp
      next
        case (Return u)
        note sc = scedual_cells [OF Pair [unfolded Return]]
        show ?thesis
        proof (cases "remove_edge (int_to_node m False) (int_to_node j True) G")
          case (Raise e)
          with Pair Return True Cons.prems p have "s' = s1" by simp
          with sc True show ?thesis by auto
        next
          case (Return G')
          with Pair \<open>o1 = Return u\<close> True Cons.prems p have "adopt x ps s1 G' = (r, s')" by simp
          from Cons.IH [OF this] sc True show ?thesis by auto
        qed
      qed
    qed
  qed
qed

text \<open>
  C7. When the bipartiteness test rejects the graph that is left after the entries equal
  to 1 have been assigned and their edges removed, \<^verbatim>\<open>Round\<close> raises the RuntimeError. The
  matcher plays no part in the result, the schedule holds only cells whose entry is 1, and
  the error passes through the oracle and ends the driver's loop.
\<close>

theorem non_bipartite_graph_aborts:
  assumes "build_problem output upper = Return (Some prob)"
    and "solve env prob = Some x"
    and "adopt x (pairs (clear output)) (clear output) (fractional_graph (clear output) x)
           = (Return G, output1)"
    and "\<not> is_bipartite env G"
    and "lower \<le> upper"
  shows "Round env (clear output) x
           = (Raise (RuntimeError ''G[fractional solution] should be bipartite''), output1)
    \<and> Round (env\<lparr>maximum_matching := matcher\<rparr>) (clear output) x
           = (Raise (RuntimeError ''G[fractional solution] should be bipartite''), output1)
    \<and> (\<forall>m < Mechines output. \<forall>j < Jobs output. assignments output1 ! m ! j \<longrightarrow> x m j = 1)
    \<and> LinearProgram env output upper
           = (Raise (RuntimeError ''G[fractional solution] should be bipartite''), output1)
    \<and> apprx_loop env lower upper output calls
           = Some (Raise (RuntimeError ''G[fractional solution] should be bipartite''), output1, calls)"
proof -
  let ?e = "Raise (RuntimeError ''G[fractional solution] should be bipartite'')"
  have r: "Round env (clear output) x = (?e, output1)"
    using assms(3,4) by (simp add: Round_def)
  have r': "Round (env\<lparr>maximum_matching := matcher\<rparr>) (clear output) x = (?e, output1)"
    using assms(3,4) by (simp add: Round_def)
  have lp: "LinearProgram env output upper = (?e, output1)"
    using assms(1,2) r by (simp add: LinearProgram_def)
  have it: "apprx_iteration env lower upper output = (?e, output1)"
    using lp by (simp add: apprx_iteration_def)
  have loop: "apprx_loop env lower upper output calls = Some (?e, output1, calls)"
    using assms(5) it by (subst apprx_loop.simps) simp
  have cl: "assignments (clear output) = zeros (shape output)"
    "Mechines (clear output) = Mechines output" "Jobs (clear output) = Jobs output"
    by (simp_all add: clear_def shape_def Mechines_def Jobs_def)
  have cells: "\<forall>m < Mechines output. \<forall>j < Jobs output. assignments output1 ! m ! j \<longrightarrow> x m j = 1"
    using adopt_cells [OF assms(3)] by (auto simp: cl zeros_def shape_def)
  from r r' cells lp loop show ?thesis by blast
qed

theorem non_bipartite_graph_aborts_witness:
  "LinearProgram rejecting_engines \<lparr>costs = [[1], [1]], assignments = [[True], [False]]\<rparr> 1
     = (Raise (RuntimeError ''G[fractional solution] should be bipartite''),
        \<lparr>costs = [[1], [1]], assignments = [[False], [False]]\<rparr>)
   \<and> apprx_loop rejecting_engines (1 / 2) 1 \<lparr>costs = [[1], [1]], assignments = [[True], [False]]\<rparr> []
     = Some (Raise (RuntimeError ''G[fractional solution] should be bipartite''),
        \<lparr>costs = [[1], [1]], assignments = [[False], [False]]\<rparr>, [])"
proof -
  let ?s = "\<lparr>costs = [[1], [1]], assignments = [[True], [False]]\<rparr>"
  let ?s1 = "\<lparr>costs = [[1], [1]], assignments = [[False], [False]]\<rparr>"
  let ?p = "\<lparr>variables_shape = (2, 1),
       constraints = [VariablesGe0, ActivesGeVariables, SumActivesLe 3,
         Eq (Lin [(1, 0, 0), (1, 1, 0)]) 1,
         Le (Lin [(1, 0, 0)]) 1, Le (Lin [(1, 1, 0)]) 1,
         Le (Maximum [Lin [(1, 0, 0)], Lin [(1, 1, 0)]]) 1],
       minimize = Maximum [Lin [(1, 0, 0)], Lin [(1, 1, 0)]]\<rparr>"
  let ?G = "\<lparr>nodes = [''M0'', ''M1'', ''J0''], edges = [(''M0'', ''J0''), (''M1'', ''J0'')]\<rparr>"
  have h1: "build_problem ?s 1 = Return (Some ?p)"
    by (simp add: eval_defs upt2 upt1)
  have h2: "solve rejecting_engines ?p = Some (\<lambda>m j. 1 / 2)"
    by (simp add: rejecting_engines_def)
  have h3: "adopt (\<lambda>m j. 1 / 2) (pairs (clear ?s)) (clear ?s) (fractional_graph (clear ?s) (\<lambda>m j. 1 / 2))
      = (Return ?G, ?s1)"
    by (simp add: eval_defs upt2 upt1 str_digit digit_chars_def)
  have h4: "\<not> is_bipartite rejecting_engines ?G"
    by (simp add: rejecting_engines_def)
  have h5: "(1 / 2 :: rat) \<le> 1" by simp
  from non_bipartite_graph_aborts [OF h1 h2 h3 h4 h5, of "maximum_matching rejecting_engines" "[]"]
  show ?thesis by simp
qed

section \<open>One iteration of the driver\<close>

lemma LinearProgram_False_unchanged:
  "LinearProgram env output b = (Return False, output') \<Longrightarrow> output' = output"
  by (auto simp: LinearProgram_def split: outcome.splits option.splits prod.splits)


lemma apprx_iteration_infeasible_unchanged:
  assumes "apprx_iteration env lower upper output = (Return (False, lower', upper'), output')"
  shows "output' = output"
proof -
  obtain r s1 where lp: "LinearProgram env output upper = (r, s1)"
    by (cases "LinearProgram env output upper")
  with assms have "r = Return False" "s1 = output'"
    by (auto simp: apprx_iteration_def Let_def split: outcome.splits)
  with lp show ?thesis by (auto dest: LinearProgram_False_unchanged)
qed




section \<open>A search that finds no feasible bound\<close>

lemma apprx_loop_log:
  assumes "apprx_loop env lower upper output calls = Some res"
  shows "\<exists>r output' ext. res = (r, output', calls @ ext)
     \<and> (r = Return () \<and> list_all (\<lambda>c. \<not> snd c) ext \<longrightarrow> output' = output)"
proof (rule apprx_loop.raw_induct [where P = "\<lambda>env lower upper output calls res.
     \<exists>r output' ext. res = (r, output', calls @ ext)
     \<and> (r = Return () \<and> list_all (\<lambda>c. \<not> snd c) ext \<longrightarrow> output' = output)", OF _ assms])
  fix f :: "engines \<Rightarrow> rat \<Rightarrow> rat \<Rightarrow> scedual \<Rightarrow> (rat \<times> bool) list
      \<Rightarrow> (unit outcome \<times> scedual \<times> (rat \<times> bool) list) option"
  fix env lower upper out calls res
  assume IH: "\<And>env lower upper output calls res. f env lower upper output calls = Some res \<Longrightarrow>
      \<exists>r output' ext. res = (r, output', calls @ ext)
        \<and> (r = Return () \<and> list_all (\<lambda>c. \<not> snd c) ext \<longrightarrow> output' = output)"
    and eq: "(if lower \<le> upper
      then case apprx_iteration env lower upper out of
           (Return (feasable, lower', upper'), output') \<Rightarrow>
             f env lower' upper' output' (calls @ [(upper, feasable)])
           | (Raise e, output') \<Rightarrow> Some (Raise e, output', calls)
      else Some (Return (), out, calls)) = Some res"
  show "\<exists>r output' ext. res = (r, output', calls @ ext)
        \<and> (r = Return () \<and> list_all (\<lambda>c. \<not> snd c) ext \<longrightarrow> output' = out)"
  proof (cases "lower \<le> upper")
    case False
    with eq have "res = (Return (), out, calls @ [])" by simp
    then show ?thesis by blast
  next
    case True
    obtain o1 s1 where it: "apprx_iteration env lower upper out = (o1, s1)"
      by (cases "apprx_iteration env lower upper out")
    show ?thesis
    proof (cases o1)
      case (Raise e)
      with eq True it have "res = (Raise e, s1, calls @ [])" by simp
      then show ?thesis by blast
    next
      case (Return t)
      obtain feasable lower' upper' where t: "t = (feasable, lower', upper')"
        by (cases t)
      from eq True it Return t
      have "f env lower' upper' s1 (calls @ [(upper, feasable)]) = Some res" by simp
      from IH [OF this] obtain r output' ext
        where res: "res = (r, output', (calls @ [(upper, feasable)]) @ ext)"
          and same: "r = Return () \<and> list_all (\<lambda>c. \<not> snd c) ext \<longrightarrow> output' = s1"
        by blast
      have "output' = out" if "r = Return ()" "list_all (\<lambda>c. \<not> snd c) ((upper, feasable) # ext)"
      proof -
        from that have nf: "\<not> feasable" and "list_all (\<lambda>c. \<not> snd c) ext" by simp_all
        with same that(1) have "output' = s1" by simp
        moreover have "s1 = out"
          using it Return t nf by (auto dest: apprx_iteration_infeasible_unchanged)
        ultimately show ?thesis by simp
      qed
      with res show ?thesis by (intro exI [of _ r] exI [of _ output'] exI [of _ "(upper, feasable) # ext"]) simp
    qed
  qed
qed

lemma extract_result_assignment_zeros:
  assumes "assignments s = zeros (shape s)"
  shows "extract_result_assignment s = {}"
proof -
  have "\<not> assignments s ! m ! j" if "m \<in> set (agents (costs s))" "j \<in> set (objects (costs s))" for m j
    using that assms by (simp add: zeros_nth shape_def Mechines_def Jobs_def agents_def objects_def
        split: list.splits)
  then show ?thesis
    by (auto simp: extract_result_assignment_def)
qed

text \<open>
  The program the code builds for three jobs of cost one half on two machines and the
  greedy makespan 1 has no feasible point: each job's entries sum to 1 and each machine's
  entries, with unit coefficients, to at most 1.
\<close>

lemma halves_infeasible:
  assumes "build_problem (build halves s) 1 = Return (Some prob)"
  shows "\<not> feasible_point prob x a"
proof
  assume f: "feasible_point prob x a"
  from assms have sat: "list_all (satisfies (2, 3) x a)
      [Eq (Lin [(1, 0, 0), (1, 1, 0)]) 1, Eq (Lin [(1, 0, 1), (1, 1, 1)]) 1,
       Eq (Lin [(1, 0, 2), (1, 1, 2)]) 1,
       Le (Lin [(1, 0, 0), (1, 0, 1), (1, 0, 2)]) 1,
       Le (Lin [(1, 1, 0), (1, 1, 1), (1, 1, 2)]) 1]"
    using f by (auto simp: eval_defs upt2 upt3 halves_def)
  then have "x 0 0 + x 1 0 = 1" "x 0 1 + x 1 1 = 1" "x 0 2 + x 1 2 = 1"
    "x 0 0 + x 0 1 + x 0 2 \<le> 1" "x 1 0 + x 1 1 + x 1 2 \<le> 1"
    by simp_all
  then show False by linarith
qed

text \<open>
  C4, as stated, fails. On that matrix the oracle rejects the greedy bound in each of the
  twelve iterations of the search; the run returns the schedule with no job assigned and
  makespan 0, where the greedy assigner's own result has makespan 1.
\<close>

theorem no_feasible_bound_is_not_greedy:
  "apprx (integral_engines halves_greedy) (build halves fresh)
     = Some (Return (),
         \<lparr>costs = halves, assignments = [[False, False, False], [False, False, False]]\<rparr>,
         replicate 12 (1, False))
   \<and> greedy (build halves fresh) = (Return (), \<lparr>costs = halves, assignments = halves_greedy\<rparr>)
   \<and> MinMakespan (apprx_algo (integral_engines halves_greedy)) extract_result_makespan halves fresh
     = Some (Return 0,
         \<lparr>costs = halves, assignments = [[False, False, False], [False, False, False]]\<rparr>)
   \<and> MinMakespan greedy_algo extract_result_makespan halves fresh
     = Some (Return 1, \<lparr>costs = halves, assignments = halves_greedy\<rparr>)"
  by (simp add: eval_run halves_def halves_greedy_def apprx_loop.simps numeral_eq_Suc fresh_def)

text \<open>
  C4, amended. When the search returns and the oracle found no bound feasible, the
  schedule is the one the driver was given; after \<^verbatim>\<open>build\<close>, with at least one machine,
  that is the schedule with no job assigned, whose makespan is 0. The greedy solution only
  seeds the bounds.
\<close>

theorem no_feasible_bound_leaves_schedule:
  assumes "apprx env output = Some (Return (), output', calls)"
    and "list_all (\<lambda>c. \<not> snd c) calls"
  shows "output' = output
    \<and> (1 \<le> Mechines output \<and> assignments output = zeros (shape output) \<longrightarrow>
         extract_result_makespan output' = Return 0 \<and> extract_result_assignment output' = {})"
proof -
  from assms(1) obtain lower upper
    where "apprx_loop env lower upper output [] = Some (Return (), output', calls)"
    by (auto simp: apprx_def split: prod.splits outcome.splits)
  from apprx_loop_log [OF this] assms(2) have same: "output' = output" by auto
  have "extract_result_makespan output = Return 0 \<and> extract_result_assignment output = {}"
    if M: "1 \<le> Mechines output" and z: "assignments output = zeros (shape output)"
  proof
    have "\<forall>mechine < Mechines output. \<forall>job < Jobs output. \<not> assignments output ! mechine ! job"
      using z by (simp add: zeros_nth shape_def)
    with M show "extract_result_makespan output = Return 0"
      by (rule extract_result_makespan_unassigned)
    show "extract_result_assignment output = {}"
      using z by (rule extract_result_assignment_zeros)
  qed
  with same show ?thesis by simp
qed

theorem no_feasible_bound_leaves_schedule_witness:
  "\<lparr>costs = halves, assignments = [[False, False, False], [False, False, False]]\<rparr>
     = build halves fresh
   \<and> extract_result_makespan
        \<lparr>costs = halves, assignments = [[False, False, False], [False, False, False]]\<rparr> = Return 0
   \<and> extract_result_assignment
        \<lparr>costs = halves, assignments = [[False, False, False], [False, False, False]]\<rparr> = {}"
proof -
  let ?E = "integral_engines halves_greedy"
  let ?z = "\<lparr>costs = halves, assignments = [[False, False, False], [False, False, False]]\<rparr>"
  have run: "apprx ?E (build halves fresh) = Some (Return (), ?z, replicate 12 (1, False))"
    by (simp add: eval_run halves_def halves_greedy_def apprx_loop.simps numeral_eq_Suc fresh_def)
  have none: "list_all (\<lambda>c. \<not> snd c) (replicate 12 (1 :: rat, False))"
    by (simp add: list_all_length)
  have M: "1 \<le> Mechines (build halves fresh)"
    by (simp add: build_fields Mechines_def agents_def halves_def)
  note inst = no_feasible_bound_leaves_schedule [OF run none]
  from inst have same: "?z = build halves fresh" by (rule conjunct1)
  from inst M build_fields(2) [of halves fresh]
  have "extract_result_makespan ?z = Return 0 \<and> extract_result_assignment ?z = {}"
    by blast
  with same show ?thesis by blast
qed

section \<open>Coverage after an approximation run\<close>

text \<open>
  For the costs \<open>[[1, 1], [5, 5]]\<close> and the greedy bound 2 the point that sets both
  entries of machine 0 and entry \<open>(1, 0)\<close> satisfies the program the code builds and attains
  its optimum: the entries of machine 1, which is eligible for no job, occur in no
  per-job constraint.
\<close>

lemma skew_vertex_optimal:
  assumes "build_problem (build skew s) 2 = Return (Some prob)"
  shows "feasible_point prob (indicator skew_vertex) (active skew_vertex)"
    and "eval_expr (indicator skew_vertex) (minimize prob) = 2"
    and "feasible_point prob x a \<Longrightarrow> 2 \<le> eval_expr x (minimize prob)"
proof -
  from assms have p: "prob = \<lparr>variables_shape = (2, 2),
       constraints = [VariablesGe0, ActivesGeVariables, SumActivesLe 4,
         Eq (Lin [(1, 0, 0)]) 1, Eq (Lin [(1, 0, 1)]) 1,
         Le (Lin [(1, 0, 0), (1, 0, 1)]) 2,
         Le (Maximum [Lin [(1, 0, 0), (1, 0, 1)], Lin [(1, 1, 0), (1, 1, 1)]]) 2],
       minimize = Maximum [Lin [(1, 0, 0), (1, 0, 1)], Lin [(1, 1, 0), (1, 1, 1)]]\<rparr>"
    by (auto simp: eval_defs upt2 skew_def)
  show "feasible_point prob (indicator skew_vertex) (active skew_vertex)"
    by (simp add: p feasible_point_def upt2 indicator_def active_def skew_vertex_def)
  show "eval_expr (indicator skew_vertex) (minimize prob) = 2"
    by (simp add: p indicator_def skew_vertex_def)
  show "2 \<le> eval_expr x (minimize prob)" if "feasible_point prob x a"
    using that by (simp add: p feasible_point_def upt2 max_def)
qed



section \<open>Termination of the driver's loop\<close>

text \<open>
  The rounding error of \<open>binary64\<close> is at most half the spacing of the floats, which below
  \<open>2\<^sup>3\<^sup>8\<close> is at most \<open>2\<^sup>-\<^sup>1\<^sup>5\<close>.
\<close>

lemma ilog2_nonneg: "0 \<le> ilog2 n"
  by (induction n rule: ilog2.induct) (subst ilog2.simps, simp)

lemma ilog2_le: "n < 2 ^ Suc k \<Longrightarrow> ilog2 n \<le> int k"
proof (induction k arbitrary: n)
  case 0
  then show ?case by (subst ilog2.simps) simp
next
  case (Suc k)
  show ?case
  proof (cases "n < 2")
    case True
    then show ?thesis by (subst ilog2.simps) simp
  next
    case False
    from Suc.prems have "n div 2 < 2 ^ Suc k" by simp
    then have "ilog2 (n div 2) \<le> int k" by (rule Suc.IH)
    with False show ?thesis by (subst ilog2.simps) simp
  qed
qed

lemma exponent_le:
  assumes "x < 2 ^ 38"
  shows "exponent x \<le> 37"
proof (cases "1 \<le> x")
  case True
  have "\<lfloor>x\<rfloor> < 2 ^ Suc 37"
    using assms by (simp add: floor_less_iff)
  then have "ilog2 \<lfloor>x\<rfloor> \<le> int 37" by (rule ilog2_le)
  with True show ?thesis by (simp add: exponent_def)
next
  case False
  then show ?thesis
    using ilog2_nonneg [of "\<lceil>1 / x\<rceil> - 1"] by (simp add: exponent_def)
qed

lemma scale2_pos: "0 < scale2 e"
  by (simp add: scale2_def)

lemma scale2_small:
  assumes "e \<le> - 15"
  shows "scale2 e \<le> 1 / 2 ^ 15"
proof -
  have "(2::rat) ^ 15 \<le> 2 ^ nat (- e)"
    using assms by (intro power_increasing) simp_all
  then show ?thesis
    using assms by (simp add: scale2_def field_simps)
qed

lemma round_half_even_error: "\<bar>of_int (round_half_even q) - q\<bar> \<le> 1 / 2"
proof -
  define f where "f = \<lfloor>q\<rfloor>"
  have f: "of_int f \<le> q" "q < of_int f + 1"
    unfolding f_def by linarith+
  have r: "round_half_even q =
      (if q - of_int f < 1 / 2 then f else if 1 / 2 < q - of_int f then f + 1
       else if even f then f else f + 1)"
    by (simp add: round_half_even_def Let_def f_def)
  show ?thesis
  proof (cases "q - of_int f < 1 / 2")
    case True
    with f r show ?thesis by simp
  next
    case False
    show ?thesis
    proof (cases "even f \<and> \<not> 1 / 2 < q - of_int f")
      case True
      with False r have "round_half_even q = f" by simp
      with True False f show ?thesis by simp
    next
      case False
      with \<open>\<not> q - of_int f < 1 / 2\<close> r have "round_half_even q = f + 1" by auto
      with \<open>\<not> q - of_int f < 1 / 2\<close> f show ?thesis by simp
    qed
  qed
qed

lemma binary64_accurate:
  assumes "\<bar>x\<bar> < 2 ^ 38"
  shows "\<bar>binary64 x - x\<bar> \<le> 1 / 50000"
proof (cases "x = 0")
  case True
  then show ?thesis by (simp add: binary64_def)
next
  case False
  define ulp where "ulp = scale2 (exponent \<bar>x\<bar> - 52)"
  define q where "q = \<bar>x\<bar> / ulp"
  have pos: "0 < ulp" unfolding ulp_def by (rule scale2_pos)
  have small: "ulp \<le> 1 / 2 ^ 15"
    unfolding ulp_def using exponent_le [OF assms] by (intro scale2_small) simp
  have x: "x = sgn x * q * ulp"
    using pos by (simp add: q_def sgn_mult_abs)
  have b: "binary64 x = sgn x * of_int (round_half_even q) * ulp"
    using False by (simp add: binary64_def Let_def ulp_def q_def)
  have "binary64 x - x = sgn x * (of_int (round_half_even q) - q) * ulp"
    unfolding b by (subst (2) x) (simp add: algebra_simps)
  then have "\<bar>binary64 x - x\<bar> = \<bar>of_int (round_half_even q) - q\<bar> * ulp"
    using False pos by (simp add: abs_mult abs_sgn_eq)
  also have "\<dots> \<le> 1 / 2 * ulp"
    using round_half_even_error [of q] pos by (intro mult_right_mono) simp_all
  also have "\<dots> \<le> 1 / 2 * (1 / 2 ^ 15)"
    using small by simp
  also have "\<dots> \<le> 1 / 50000" by simp
  finally show ?thesis .
qed

text \<open>
  When every rounding is accurate to 0.00002, an iteration that returns moves one bound
  towards the other, and the distance between them shrinks by at least 0.00003.
\<close>

lemma apprx_iteration_shrinks:
  assumes acc: "\<forall>x. \<bar>x\<bar> \<le> R \<longrightarrow> \<bar>rnd env x - x\<bar> \<le> 1 / 50000"
    and R: "2 * max \<bar>L\<bar> \<bar>U\<bar> + 1 \<le> R"
    and lu: "L \<le> lower" "lower \<le> upper" "upper \<le> U"
    and it: "apprx_iteration env lower upper out = (Return (f, lower', upper'), out')"
  shows "lower \<le> lower' \<and> upper' \<le> upper \<and> upper' - lower' \<le> upper - lower - 3 / 100000"
proof -
  define s where "s = rnd env (upper + lower)"
  define middle where "middle = rnd env (s / 2)"
  define e where "e = rnd env (1 / 10000)"
  have K: "\<bar>lower\<bar> \<le> max \<bar>L\<bar> \<bar>U\<bar>" "\<bar>upper\<bar> \<le> max \<bar>L\<bar> \<bar>U\<bar>"
    using lu by (auto simp: abs_if max_def split: if_splits)
  have "\<bar>upper + lower\<bar> \<le> R" using K R by linarith
  with acc have s: "\<bar>s - (upper + lower)\<bar> \<le> 1 / 50000"
    unfolding s_def by blast
  have "\<bar>s / 2\<bar> \<le> R" using s K R by linarith
  with acc have m: "\<bar>middle - s / 2\<bar> \<le> 1 / 50000"
    unfolding middle_def by blast
  have "\<bar>1 / 10000 :: rat\<bar> \<le> R" using R by linarith
  with acc have e: "\<bar>e - 1 / 10000\<bar> \<le> 1 / 50000"
    unfolding e_def by blast
  have "\<bar>middle + e\<bar> \<le> R" using s m e K R by linarith
  with acc have up: "\<bar>rnd env (middle + e) - (middle + e)\<bar> \<le> 1 / 50000"
    by blast
  have "\<bar>middle - e\<bar> \<le> R" using s m e K R by linarith
  with acc have down: "\<bar>rnd env (middle - e) - (middle - e)\<bar> \<le> 1 / 50000"
    by blast
  obtain r s1 where lp: "LinearProgram env out upper = (r, s1)"
    by (cases "LinearProgram env out upper")
  from it lp have new: "(lower', upper') =
      (if \<not> f then (rnd env (middle + e), upper) else (lower, rnd env (middle - e)))"
    by (auto simp: apprx_iteration_def Let_def middle_def s_def e_def split: outcome.splits)
  show ?thesis
  proof (cases f)
    case False
    with new have "lower' = rnd env (middle + e)" "upper' = upper" by simp_all
    with s m e up lu show ?thesis by linarith
  next
    case True
    with new have "lower' = lower" "upper' = rnd env (middle - e)" by simp_all
    with s m e down lu show ?thesis by linarith
  qed
qed



lemma apprx_loop_returns_within:
  assumes acc: "\<forall>x. \<bar>x\<bar> \<le> R \<longrightarrow> \<bar>rnd env x - x\<bar> \<le> 1 / 50000"
    and R: "2 * max \<bar>L\<bar> \<bar>U\<bar> + 1 \<le> R"
  shows "L \<le> lower \<Longrightarrow> upper \<le> U \<Longrightarrow> (upper - lower) * 100000 < 3 * of_nat n \<Longrightarrow>
    \<exists>res. apprx_loop env lower upper out calls = Some res"
proof (induction n arbitrary: lower upper out calls)
  case 0
  then have "\<not> lower \<le> upper" by simp
  then show ?case by (subst apprx_loop.simps) simp
next
  case (Suc n)
  show ?case
  proof (cases "lower \<le> upper")
    case False
    then show ?thesis by (subst apprx_loop.simps) simp
  next
    case True
    obtain o1 s1 where it: "apprx_iteration env lower upper out = (o1, s1)"
      by (cases "apprx_iteration env lower upper out")
    show ?thesis
    proof (cases o1)
      case (Raise e)
      with True it show ?thesis by (subst apprx_loop.simps) simp
    next
      case (Return t)
      obtain f lower' upper' where t: "t = (f, lower', upper')" by (cases t)
      from apprx_iteration_shrinks [OF acc R Suc.prems(1) True Suc.prems(2) it [unfolded Return t]]
      have b: "lower \<le> lower'" "upper' \<le> upper" "upper' - lower' \<le> upper - lower - 3 / 100000"
        by simp_all
      have "(upper' - lower') * 100000 < 3 * of_nat n"
        using b(3) Suc.prems(3) by simp
      moreover have "L \<le> lower'" "upper' \<le> U"
        using b Suc.prems by simp_all
      ultimately obtain res
        where res: "apprx_loop env lower' upper' s1 (calls @ [(upper, f)]) = Some res"
        using Suc.IH by blast
      have "apprx_loop env lower upper out calls
          = apprx_loop env lower' upper' s1 (calls @ [(upper, f)])"
        using True it Return t by (subst apprx_loop.simps) simp
      with res show ?thesis by (intro exI [of _ res]) simp
    qed
  qed
qed

text \<open>
  C9, amended. The loop ends (it returns, or an exception ends it) whenever each rounded
  result of the arithmetic on the bounds is within 0.00002 of the exact one, for values of
  magnitude up to twice the larger bound plus one. Exact arithmetic is such a rounding, and
  so is \<open>binary64\<close> while the bounds are at most \<open>10\<^sup>1\<^sup>1\<close> in magnitude.
\<close>

theorem apprx_loop_returns_when_accurate:
  assumes "\<forall>x. \<bar>x\<bar> \<le> 2 * max \<bar>lower\<bar> \<bar>upper\<bar> + 1 \<longrightarrow> \<bar>rnd env x - x\<bar> \<le> 1 / 50000"
  shows "\<exists>res. apprx_loop env lower upper output calls = Some res"
proof -
  obtain n :: nat where "(upper - lower) * 100000 / 3 < of_nat n"
    using reals_Archimedean2 by blast
  then have n: "(upper - lower) * 100000 < 3 * of_nat n" by simp
  show ?thesis
    by (rule apprx_loop_returns_within [OF assms order_refl order_refl order_refl n])
qed

lemma rnd_double_engines: "rnd double_engines = binary64"
  by (simp add: double_engines_def)

lemma apprx_loop_returns_binary64:
  assumes "rnd env = binary64" and "\<bar>lower\<bar> \<le> 10 ^ 11" and "\<bar>upper\<bar> \<le> 10 ^ 11"
  shows "\<exists>res. apprx_loop env lower upper output calls = Some res"
proof -
  obtain n :: nat where "(upper - lower) * 100000 / 3 < of_nat n"
    using reals_Archimedean2 by blast
  then have n: "(upper - lower) * 100000 < 3 * of_nat n" by simp
  have acc: "\<forall>x. \<bar>x\<bar> \<le> 2 * max \<bar>lower\<bar> \<bar>upper\<bar> + 1 \<longrightarrow> \<bar>rnd env x - x\<bar> \<le> 1 / 50000"
  proof (intro allI impI)
    fix x :: rat
    assume "\<bar>x\<bar> \<le> 2 * max \<bar>lower\<bar> \<bar>upper\<bar> + 1"
    with assms(2,3) have "\<bar>x\<bar> < 2 ^ 38" by simp
    then show "\<bar>rnd env x - x\<bar> \<le> 1 / 50000"
      unfolding assms(1) by (rule binary64_accurate)
  qed
  show ?thesis
    by (rule apprx_loop_returns_within [OF acc order_refl order_refl order_refl n])
qed

theorem apprx_loop_returns_when_accurate_witness:
  "\<exists>res. apprx_loop double_engines 5 10 wide_assigned [] = Some res"
proof -
  have "\<forall>x. \<bar>x\<bar> \<le> 2 * max \<bar>5\<bar> \<bar>10\<bar> + 1 \<longrightarrow> \<bar>rnd double_engines x - x\<bar> \<le> 1 / 50000"
  proof (intro allI impI)
    fix x :: rat
    assume "\<bar>x\<bar> \<le> 2 * max \<bar>5\<bar> \<bar>10\<bar> + 1"
    then have "\<bar>x\<bar> < 2 ^ 38" by simp
    then show "\<bar>rnd double_engines x - x\<bar> \<le> 1 / 50000"
      unfolding rnd_double_engines by (rule binary64_accurate)
  qed
  then show ?thesis by (rule apprx_loop_returns_when_accurate)
qed

text \<open>
  Within one binade \<open>[2\<^sup>k, 2\<^sup>k\<^sup>+\<^sup>1)\<close> the rounding is that of a fixed spacing, and monotone.
\<close>

lemma ilog2_eq: "2 ^ k \<le> n \<Longrightarrow> n < 2 ^ Suc k \<Longrightarrow> ilog2 n = int k"
proof (induction k arbitrary: n)
  case 0
  then show ?case by (subst ilog2.simps) simp
next
  case (Suc k)
  from Suc.prems have "2 ^ k \<le> n div 2" "n div 2 < 2 ^ Suc k" by simp_all
  then have half: "ilog2 (n div 2) = int k" by (rule Suc.IH)
  have "(2::int) \<le> 2 ^ Suc k" by simp
  with Suc.prems(1) have "\<not> n < 2" by linarith
  with half show ?case by (subst ilog2.simps) simp
qed

lemma exponent_binade:
  assumes "2 ^ k \<le> x" and "x < 2 ^ Suc k"
  shows "exponent x = int k"
proof -
  have "(1::rat) \<le> 2 ^ k" by simp
  with assms(1) have one: "1 \<le> x" by linarith
  have "(2::int) ^ k \<le> \<lfloor>x\<rfloor>"
    using assms(1) by (simp add: le_floor_iff)
  moreover have "\<lfloor>x\<rfloor> < 2 ^ Suc k"
    using assms(2) by (simp add: floor_less_iff)
  ultimately have "ilog2 \<lfloor>x\<rfloor> = int k" by (rule ilog2_eq)
  with one show ?thesis by (simp add: exponent_def)
qed

lemma binary64_binade:
  assumes "2 ^ k \<le> x" and "x < 2 ^ Suc k"
  shows "binary64 x = of_int (round_half_even (x / scale2 (int k - 52))) * scale2 (int k - 52)"
proof -
  have "(0::rat) < 2 ^ k" by simp
  with assms(1) have pos: "0 < x" by linarith
  then have "exponent \<bar>x\<bar> = int k"
    using exponent_binade [OF assms] by simp
  with pos show ?thesis by (simp add: binary64_def Let_def)
qed

lemma round_half_even_mono:
  assumes "q \<le> q'"
  shows "round_half_even q \<le> round_half_even q'"
proof -
  define f where "f = \<lfloor>q\<rfloor>"
  define f' where "f' = \<lfloor>q'\<rfloor>"
  have ff: "f \<le> f'" unfolding f_def f'_def using assms by (rule floor_mono)
  have r: "round_half_even q =
      (if q - of_int f < 1 / 2 then f else if 1 / 2 < q - of_int f then f + 1
       else if even f then f else f + 1)"
    by (simp add: round_half_even_def Let_def f_def)
  have r': "round_half_even q' =
      (if q' - of_int f' < 1 / 2 then f' else if 1 / 2 < q' - of_int f' then f' + 1
       else if even f' then f' else f' + 1)"
    by (simp add: round_half_even_def Let_def f'_def)
  have up: "round_half_even q \<le> f + 1" using r by simp
  have low: "f' \<le> round_half_even q'" using r' by simp
  show ?thesis
  proof (cases "f < f'")
    case True
    with up low show ?thesis by linarith
  next
    case False
    with ff have "f' = f" by simp
    with r r' assms show ?thesis by (auto split: if_splits)
  qed
qed

lemma binary64_mono_binade:
  assumes "2 ^ k \<le> x" and "x \<le> y" and "y < 2 ^ Suc k"
  shows "binary64 x \<le> binary64 y"
proof -
  have pos: "0 < scale2 (int k - 52)" by (rule scale2_pos)
  have "x / scale2 (int k - 52) \<le> y / scale2 (int k - 52)"
    using assms(2) pos by (simp add: divide_right_mono)
  then have "round_half_even (x / scale2 (int k - 52)) \<le> round_half_even (y / scale2 (int k - 52))"
    by (rule round_half_even_mono)
  then have "(of_int (round_half_even (x / scale2 (int k - 52))) :: rat) * scale2 (int k - 52)
      \<le> of_int (round_half_even (y / scale2 (int k - 52))) * scale2 (int k - 52)"
    using pos by (simp add: mult_right_mono)
  moreover have y: "2 ^ k \<le> y" and x: "x < 2 ^ Suc k" using assms by linarith+
  ultimately show ?thesis
    by (simp only: binary64_binade [OF assms(1) x] binary64_binade [OF y assms(3)])
qed

lemma binary64_points:
  "binary64 (1 / 10000) = 7378697629483821 / 73786976294838206464"
  "binary64 5000000000000 = 5000000000000"
  "binary64 6250000000000 = 6250000000000"
  "binary64 7500000000000 = 7500000000000"
  "binary64 12500000000000 = 12500000000000"
  "binary64 15000000000000 = 15000000000000"
  "binary64 (7500000000000 + 7378697629483821 / 73786976294838206464) = 7500000000000"
  "binary64 (7500000000000 - 7378697629483821 / 73786976294838206464) = 7500000000000"
  "binary64 (553402322211286541101302370516179 / 73786976294838206464) = 7500000000000"
  by code_simp+

lemma stuck_lower:
  assumes "5000000000000 \<le> lower" and "lower \<le> 7500000000000"
  shows "5000000000000 \<le> binary64 (binary64 (binary64 (7500000000000 + lower) / 2)
            + 7378697629483821 / 73786976294838206464)"
    and "binary64 (binary64 (binary64 (7500000000000 + lower) / 2)
            + 7378697629483821 / 73786976294838206464) \<le> 7500000000000"
proof -
  define a where "a = binary64 (7500000000000 + lower)"
  define m where "m = binary64 (a / 2)"
  have "binary64 12500000000000 \<le> a"
    unfolding a_def using assms by (intro binary64_mono_binade [where k = 43]) simp_all
  moreover have "a \<le> binary64 15000000000000"
    unfolding a_def using assms by (intro binary64_mono_binade [where k = 43]) simp_all
  ultimately have a: "12500000000000 \<le> a" "a \<le> 15000000000000"
    by (simp_all add: binary64_points)
  have "binary64 6250000000000 \<le> m"
    unfolding m_def using a by (intro binary64_mono_binade [where k = 42]) simp_all
  moreover have "m \<le> binary64 7500000000000"
    unfolding m_def using a by (intro binary64_mono_binade [where k = 42]) simp_all
  ultimately have m: "6250000000000 \<le> m" "m \<le> 7500000000000"
    by (simp_all add: binary64_points)
  define l' where "l' = binary64 (m + 7378697629483821 / 73786976294838206464)"
  have "binary64 6250000000000 \<le> l'"
    unfolding l'_def using m by (intro binary64_mono_binade [where k = 42]) simp_all
  then have lo: "5000000000000 \<le> l'"
    by (simp add: binary64_points)
  have "l' \<le> binary64 (7500000000000 + 7378697629483821 / 73786976294838206464)"
    unfolding l'_def using m by (intro binary64_mono_binade [where k = 42]) simp_all
  then have hi: "l' \<le> 7500000000000"
    by (simp only: binary64_points)
  from lo show "5000000000000 \<le> binary64 (binary64 (binary64 (7500000000000 + lower) / 2)
            + 7378697629483821 / 73786976294838206464)"
    unfolding l'_def m_def a_def .
  from hi show "binary64 (binary64 (binary64 (7500000000000 + lower) / 2)
            + 7378697629483821 / 73786976294838206464) \<le> 7500000000000"
    unfolding l'_def m_def a_def .
qed

text \<open>
  The program built for \<open>wide\<close> and the greedy bound \<open>10\<^sup>1\<^sup>3\<close> has one optimum, the
  assignment of each job to its own machine: the solver's answer in the run below is the
  only one a correct solver can give.
\<close>

lemma wide_optimum_unique:
  assumes "build_problem (build wide s) 10000000000000 = Return (Some prob)"
    and "feasible_point prob x a"
  shows "1 \<le> eval_expr x (minimize prob)"
    and "eval_expr x (minimize prob) = 1 \<Longrightarrow>
           x 0 0 = 1 \<and> x 0 1 = 0 \<and> x 1 0 = 0 \<and> x 1 1 = 1"
proof -
  from assms(1) have p: "prob = \<lparr>variables_shape = (2, 2),
       constraints = [VariablesGe0, ActivesGeVariables, SumActivesLe 4,
         Eq (Lin [(1, 0, 0)]) 1, Eq (Lin [(1, 1, 1)]) 1,
         Le (Lin [(1, 0, 0)]) 10000000000000, Le (Lin [(1, 1, 1)]) 10000000000000,
         Le (Maximum [Lin [(1, 0, 0), (1, 0, 1)], Lin [(1, 1, 0), (1, 1, 1)]]) 10000000000000],
       minimize = Maximum [Lin [(1, 0, 0), (1, 0, 1)], Lin [(1, 1, 0), (1, 1, 1)]]\<rparr>"
    by (auto simp: eval_defs upt2 wide_def)
  from assms(2) have x: "0 \<le> x 0 1" "0 \<le> x 1 0" "x 0 0 = 1" "x 1 1 = 1"
    by (simp_all add: p feasible_point_def upt2)
  have obj: "eval_expr x (minimize prob) = max (x 1 0 + x 1 1) (x 0 0 + x 0 1)"
    by (simp add: p)
  show "1 \<le> eval_expr x (minimize prob)"
    unfolding obj using x by (simp add: max_def)
  show "x 0 0 = 1 \<and> x 0 1 = 0 \<and> x 1 0 = 0 \<and> x 1 1 = 1" if "eval_expr x (minimize prob) = 1"
    using that x unfolding obj by (simp add: max_def split: if_splits)
qed

lemma wide_infeasible_below:
  "LinearProgram double_engines wide_assigned 7500000000000 = (Return False, wide_assigned)"
  by (simp add: eval_run wide_assigned_def wide_def double_engines_def)

lemma wide_stuck_iteration:
  "apprx_iteration double_engines lower 7500000000000 wide_assigned
     = (Return (False,
          binary64 (binary64 (binary64 (7500000000000 + lower) / 2)
            + 7378697629483821 / 73786976294838206464), 7500000000000),
        wide_assigned)"
  by (simp add: apprx_iteration_def wide_infeasible_below Let_def binary64_points
      rnd_double_engines)

lemma wide_never_returns:
  assumes "5000000000000 \<le> lower" and "lower \<le> 7500000000000"
  shows "apprx_loop double_engines lower 7500000000000 wide_assigned calls = None"
proof (rule ccontr)
  assume "apprx_loop double_engines lower 7500000000000 wide_assigned calls \<noteq> None"
  then obtain res
    where ret: "apprx_loop double_engines lower 7500000000000 wide_assigned calls = Some res"
    by blast
  have "\<not> (double_engines = double_engines \<and> 5000000000000 \<le> lower \<and> lower \<le> 7500000000000
      \<and> (7500000000000 :: rat) = 7500000000000 \<and> wide_assigned = wide_assigned)"
  proof (rule apprx_loop.raw_induct [where P = "\<lambda>env' lower' upper' out' calls' res'.
      \<not> (env' = double_engines \<and> 5000000000000 \<le> lower' \<and> lower' \<le> 7500000000000
         \<and> upper' = 7500000000000 \<and> out' = wide_assigned)", OF _ ret])
    fix loop :: "engines \<Rightarrow> rat \<Rightarrow> rat \<Rightarrow> scedual \<Rightarrow> (rat \<times> bool) list
      \<Rightarrow> (unit outcome \<times> scedual \<times> (rat \<times> bool) list) option"
    fix env' lower' upper' out' calls' res'
    assume IH: "\<And>env' lower' upper' out' calls' res'.
        loop env' lower' upper' out' calls' = Some res' \<Longrightarrow>
        \<not> (env' = double_engines \<and> 5000000000000 \<le> lower' \<and> lower' \<le> 7500000000000
           \<and> upper' = 7500000000000 \<and> out' = wide_assigned)"
      and eq: "(if lower' \<le> upper'
        then case apprx_iteration env' lower' upper' out' of
             (Return (feasable, lower'', upper''), output') \<Rightarrow>
               loop env' lower'' upper'' output' (calls' @ [(upper', feasable)])
             | (Raise e, output') \<Rightarrow> Some (Raise e, output', calls')
        else Some (Return (), out', calls')) = Some res'"
    show "\<not> (env' = double_engines \<and> 5000000000000 \<le> lower' \<and> lower' \<le> 7500000000000
           \<and> upper' = 7500000000000 \<and> out' = wide_assigned)"
    proof
      assume inv: "env' = double_engines \<and> 5000000000000 \<le> lower' \<and> lower' \<le> 7500000000000
           \<and> upper' = 7500000000000 \<and> out' = wide_assigned"
      define next_lower where "next_lower =
        binary64 (binary64 (binary64 (7500000000000 + lower') / 2)
            + 7378697629483821 / 73786976294838206464)"
      from inv eq have "loop double_engines next_lower 7500000000000 wide_assigned
          (calls' @ [(7500000000000, False)]) = Some res'"
        by (simp add: wide_stuck_iteration next_lower_def)
      from IH [OF this] stuck_lower [of lower'] inv show False
        by (simp add: next_lower_def)
    qed
  qed
  with assms show False by simp
qed

lemma wide_first_iteration:
  "apprx_iteration double_engines 5000000000000 10000000000000 (build (wide) fresh)
     = (Return (True, 5000000000000, 7500000000000), wide_assigned)"
  by (simp add: eval_run wide_assigned_def wide_def double_engines_def fresh_def binary64_points)

text \<open>
  C9, as stated, fails. On \<open>wide\<close> the greedy makespan is \<open>10\<^sup>1\<^sup>3\<close>; the first iteration
  finds it feasible and sets the upper bound to \<open>7.5 * 10\<^sup>1\<^sup>2\<close>, where the spacing of the
  floats is \<open>2\<^sup>-\<^sup>1\<^sup>0\<close> and subtracting 0.0001 changes nothing. From then on every bound is
  infeasible, the lower bound never passes the upper one, because adding 0.0001 to the
  midpoint is absorbed as well, and the loop runs forever.
\<close>

theorem apprx_loops_forever:
  "apprx double_engines (build (wide) fresh) = None"
proof -
  have start: "apprx double_engines (build (wide) fresh)
      = apprx_loop double_engines 5000000000000 10000000000000 (build (wide) fresh) []"
    by (simp add: eval_run wide_def double_engines_def fresh_def binary64_points)
  have "apprx_loop double_engines 5000000000000 10000000000000 (build (wide) fresh) []
      = apprx_loop double_engines 5000000000000 7500000000000 wide_assigned
          [(10000000000000, True)]"
    by (subst apprx_loop.simps) (simp add: wide_first_iteration)
  also have "\<dots> = None"
    by (rule wide_never_returns) simp_all
  finally show ?thesis using start by simp
qed

end
